theory Spec2Isabelle
  imports Main "HOL-Library.AList" "HOL-Library.Multiset"
begin

section \<open>The cache manager of sublime-music (src/sublime/cache_manager.py)\<close>

text \<open>
  The development embeds the parts of \<^verbatim>\<open>cache_manager.py\<close> that its specification
  speaks about: the \<^verbatim>\<open>Result\<close> wrapper, the download registry of
  \<^verbatim>\<open>return_cached_or_download\<close>, the paginated album list, the version-0 migration of
  \<^verbatim>\<open>load_cache_info\<close>, the ranked views of \<^verbatim>\<open>SearchResult\<close>, the two-phase
  \<^verbatim>\<open>search\<close> and the attribute fallback of the \<^verbatim>\<open>Singleton\<close> metaclass.

  Python values that may be \<^verbatim>\<open>None\<close> are values of an option type; a raised exception is
  the left injection of a sum.
\<close>

subsection \<open>Exceptions\<close>

datatype error =
    ConnectionError
  | TypeError
  | AttributeError
  | FileNotFoundError
  | PyException string
  | OtherError string

subsection \<open>Futures and the Result wrapper\<close>

text \<open>
  \<^verbatim>\<open>concurrent.futures.Future\<close> belongs to Python's standard library. Of a future the
  model keeps its outcome (\<open>None\<close> while the submitted function has not finished) and the
  callbacks registered on it. A callback registered on a running future is stored and
  called, with the future as its only argument, when the future finishes; a callback
  registered on a finished future is called at once.

  A callback is known by a name of type \<open>'fn\<close>; a call is the pair of the callback and
  the list of its arguments. The arguments are Python objects: a plain value, a
  \<^verbatim>\<open>Result\<close> or a future.
\<close>

datatype 'fn callback = AfterDownload | UserCallback 'fn

record ('a, 'fn) future =
  fut_outcome :: "(error + 'a option) option"
  fut_callbacks :: "'fn callback list"

record ('a, 'fn) result =
  data :: "'a option"
  future :: "('a, 'fn) future option"
  on_cancel :: "'fn option"

datatype ('a, 'fn) pyobj =
    PlainValue "'a option"
  | ResultObj "('a, 'fn) result"
  | FutureObj "('a, 'fn) future"

type_synonym ('a, 'fn) call = "'fn callback \<times> ('a, 'fn) pyobj list"

definition future_add_done_callback ::
  "('a, 'fn) future \<Rightarrow> 'fn callback \<Rightarrow> ('a, 'fn) future \<times> ('a, 'fn) call list" where
  "future_add_done_callback f fn =
     (if fut_outcome f = None
      then (f\<lparr>fut_callbacks := fut_callbacks f @ [fn]\<rparr>, [])
      else (f, [(fn, [FutureObj f])]))"

definition future_finish ::
  "('a, 'fn) future \<Rightarrow> (error + 'a option) \<Rightarrow> ('a, 'fn) future \<times> ('a, 'fn) call list" where
  "future_finish f out =
     (let f' = f\<lparr>fut_outcome := Some out\<rparr>
      in (f', map (\<lambda>fn. (fn, [FutureObj f'])) (fut_callbacks f)))"

definition future_result :: "('a, 'fn) future \<Rightarrow> (error + 'a option) option" where
  \<comment> \<open>\<^verbatim>\<open>Future.result()\<close> blocks while the future runs: \<open>None\<close> is "still blocked".\<close>
  "future_result f = fut_outcome f"

text \<open>\<^verbatim>\<open>Result.from_data\<close>: a fresh Result whose \<^verbatim>\<open>data\<close> is the argument.\<close>

definition from_data :: "'a option \<Rightarrow> ('a, 'fn) result" where
  "from_data d = \<lparr>data = d, future = None, on_cancel = None\<rparr>"

text \<open>
  \<^verbatim>\<open>Result.from_server\<close> submits \<^verbatim>\<open>future_fn\<close> to the executor and registers the
  \<^verbatim>\<open>after_download\<close> wrapper on the new future when one is given. The submitted function
  is the caller's business; the Result holds the running future.
\<close>

definition from_server :: "bool \<Rightarrow> 'fn option \<Rightarrow> ('a, 'fn) result" where
  "from_server has_after_download cancel_fn =
     \<lparr>data = None,
      future = Some \<lparr>fut_outcome = None,
                     fut_callbacks = (if has_after_download then [AfterDownload] else [])\<rparr>,
      on_cancel = cancel_fn\<rparr>"

text \<open>
  \<^verbatim>\<open>Result.result\<close>: the data when it is not \<^verbatim>\<open>None\<close>, else the future's result when
  there is a future, else an exception.
\<close>

definition no_data_or_future :: error where
  "no_data_or_future =
     PyException ''CacheManager.Result did not have either a data or future member.''"

definition result_of :: "('a, 'fn) result \<Rightarrow> (error + 'a option) option" where
  "result_of r =
     (if data r \<noteq> None then Some (Inr (data r))
      else (case future r of
              Some f \<Rightarrow> future_result f
            | None \<Rightarrow> Some (Inl no_data_or_future)))"

text \<open>
  \<^verbatim>\<open>Result.add_done_callback(fn, *args)\<close>: with a future, the registration is passed on to
  the future together with the extra arguments (the future's own method takes the
  callback alone, so any extra argument is a \<^verbatim>\<open>TypeError\<close>); without a future,
  \<^verbatim>\<open>fn(self, *args)\<close> runs on the spot.
\<close>

definition add_done_callback ::
  "('a, 'fn) result \<Rightarrow> 'fn \<Rightarrow> ('a, 'fn) pyobj list
     \<Rightarrow> error + (('a, 'fn) result \<times> ('a, 'fn) call list)" where
  "add_done_callback r fn args =
     (case future r of
        Some f \<Rightarrow>
          (if args \<noteq> [] then Inl TypeError
           else (let (f', calls) = future_add_done_callback f (UserCallback fn)
                 in Inr (r\<lparr>future := Some f'\<rparr>, calls)))
      | None \<Rightarrow> Inr (r, [(UserCallback fn, ResultObj r # args)]))"

definition is_future :: "('a, 'fn) result \<Rightarrow> bool" where
  "is_future r = (future r \<noteq> None)"

text \<open>
  When the executor finishes the future of a Result with the outcome \<open>out\<close>, the
  registered callbacks run.
\<close>

definition finish_result ::
  "('a, 'fn) result \<Rightarrow> (error + 'a option) \<Rightarrow> ('a, 'fn) result \<times> ('a, 'fn) call list" where
  "finish_result r out =
     (case future r of
        Some f \<Rightarrow> (let (f', calls) = future_finish f out in (r\<lparr>future := Some f'\<rparr>, calls))
      | None \<Rightarrow> (r, []))"

subsection \<open>Ranked search results\<close>

text \<open>
  The API objects are declared in \<^verbatim>\<open>server/api_objects.py\<close>; the search code reads
  their names, titles and artists only, so the records keep an identifier and those
  fields.
\<close>

record artist_id3 =
  ar_id :: string
  ar_name :: string

record album_id3 =
  al_id :: string
  al_name :: string
  al_artist :: string

record child =
  ch_id :: string
  ch_title :: string
  ch_artist :: string

record playlist =
  pl_id :: string
  pl_name :: string

text \<open>
  \<^verbatim>\<open>similarity_ratio(query, string)\<close> is
  \<^verbatim>\<open>fuzz.partial_ratio(query.lower(), string.lower())\<close>. The scoring function of
  fuzzywuzzy and Python's \<^verbatim>\<open>str.lower\<close> are parameters of the model, kept together.
  The \<^verbatim>\<open>lru_cache\<close> around the function does not change its values.
\<close>

record fuzz =
  partial_ratio :: "string \<Rightarrow> string \<Rightarrow> int"
  lower :: "string \<Rightarrow> string"

definition similarity_ratio :: "fuzz \<Rightarrow> string \<Rightarrow> string \<Rightarrow> int" where
  "similarity_ratio fz query_str str = partial_ratio fz (lower fz query_str) (lower fz str)"

text \<open>
  A Python set is kept as the list of its elements in the order in which the set is
  iterated; no statement below depends on that order. \<^verbatim>\<open>s.union(set(results))\<close>:
\<close>

definition set_union :: "'a list \<Rightarrow> 'a list \<Rightarrow> 'a list" where
  "set_union s results = s @ remdups (filter (\<lambda>x. x \<notin> set s) results)"

record search_result =
  query :: string
  sr_artist :: "artist_id3 list option"
  sr_album :: "album_id3 list option"
  sr_song :: "child list option"
  sr_playlist :: "playlist list option"

text \<open>\<^verbatim>\<open>SearchResult(query)\<close>: the four sets start as the empty sets of the class.\<close>

definition SearchResult :: "string \<Rightarrow> search_result" where
  "SearchResult q =
     \<lparr>query = q, sr_artist = Some [], sr_album = Some [], sr_song = Some [],
      sr_playlist = Some []\<rparr>"

text \<open>
  \<^verbatim>\<open>add_results\<close> on one member: nothing happens when \<^verbatim>\<open>results\<close> is \<^verbatim>\<open>None\<close>; a
  member that is \<^verbatim>\<open>None\<close> is first replaced by the empty set.
\<close>

definition add_results :: "'a list option \<Rightarrow> 'a list option \<Rightarrow> 'a list option" where
  "add_results member results =
     (case results of
        None \<Rightarrow> member
      | Some rs \<Rightarrow> Some (set_union (case member of None \<Rightarrow> [] | Some m \<Rightarrow> m) rs))"

text \<open>
  \<^verbatim>\<open>_to_result\<close>: the candidates paired with their scores, sorted by score with
  \<^verbatim>\<open>reverse=True\<close> (Python's sort is stable, also when reversed), then the loop that
  appends while the score is above 60 and fewer than 20 items are kept.
\<close>

definition all_results :: "fuzz \<Rightarrow> string \<Rightarrow> 'a list \<Rightarrow> ('a \<Rightarrow> string) \<Rightarrow> (int \<times> 'a) list" where
  "all_results fz q it transform =
     sort_key (\<lambda>rx. - fst rx) (map (\<lambda>x. (similarity_ratio fz q (transform x), x)) it)"

fun to_result_loop :: "(int \<times> 'a) list \<Rightarrow> 'a list \<Rightarrow> 'a list" where
  "to_result_loop [] result = result"
| "to_result_loop ((ratio, x) # rest) result =
     (if ratio > 60 \<and> length result < 20 then to_result_loop rest (result @ [x])
      else result)"

definition to_result :: "fuzz \<Rightarrow> string \<Rightarrow> 'a list \<Rightarrow> ('a \<Rightarrow> string) \<Rightarrow> 'a list" where
  "to_result fz q it transform = to_result_loop (all_results fz q it transform) []"

text \<open>The four properties of \<^verbatim>\<open>SearchResult\<close>, each with its own string to score.\<close>

definition artist :: "fuzz \<Rightarrow> search_result \<Rightarrow> artist_id3 list option" where
  "artist fz sr = map_option (\<lambda>it. to_result fz (query sr) it ar_name) (sr_artist sr)"

definition album :: "fuzz \<Rightarrow> search_result \<Rightarrow> album_id3 list option" where
  "album fz sr =
     map_option (\<lambda>it. to_result fz (query sr) it (\<lambda>a. al_name a @ '' - '' @ al_artist a))
       (sr_album sr)"

definition song :: "fuzz \<Rightarrow> search_result \<Rightarrow> child list option" where
  "song fz sr =
     map_option (\<lambda>it. to_result fz (query sr) it (\<lambda>s. ch_title s @ '' - '' @ ch_artist s))
       (sr_song sr)"

definition playlist_view :: "fuzz \<Rightarrow> search_result \<Rightarrow> playlist list option" where
  "playlist_view fz sr =
     map_option (\<lambda>it. to_result fz (query sr) it pl_name) (sr_playlist sr)"

subsection \<open>The two-phase search\<close>

text \<open>
  What \<^verbatim>\<open>search\<close> reads of the cache. \<^verbatim>\<open>cache["albums"]\<close> maps a list type to its
  albums and \<^verbatim>\<open>cache["song_details"]\<close> a song id to the song; both are dictionaries
  whose values are iterated, kept as association lists.
\<close>

record cache =
  cache_albums :: "(string \<times> album_id3 list) list"
  cache_artists :: "artist_id3 list"
  cache_song_details :: "(string \<times> child) list"
  cache_playlists :: "playlist list"

text \<open>The answer of \<^verbatim>\<open>server.search3\<close>: three lists, each possibly \<^verbatim>\<open>None\<close>.\<close>

record search3_response =
  res_album :: "album_id3 list option"
  res_artist :: "artist_id3 list option"
  res_song :: "child list option"

type_synonym search_event = "search_result \<times> bool"

definition local_results :: "cache \<Rightarrow> string \<Rightarrow> search_result" where
  "local_results c q =
     (let sr0 = SearchResult q;
          sr1 = sr0\<lparr>sr_album := add_results (sr_album sr0) (Some (concat (map snd (cache_albums c))))\<rparr>;
          sr2 = sr1\<lparr>sr_artist := add_results (sr_artist sr1) (Some (cache_artists c))\<rparr>;
          sr3 = sr2\<lparr>sr_song := add_results (sr_song sr2) (Some (map snd (cache_song_details c)))\<rparr>
      in sr3\<lparr>sr_playlist := add_results (sr_playlist sr3) (Some (cache_playlists c))\<rparr>)"

definition merge_server_results :: "search_result \<Rightarrow> search3_response \<Rightarrow> search_result" where
  "merge_server_results sr res =
     (let sr1 = sr\<lparr>sr_album := add_results (sr_album sr) (res_album res)\<rparr>;
          sr2 = sr1\<lparr>sr_artist := add_results (sr_artist sr1) (res_artist res)\<rparr>
      in sr2\<lparr>sr_song := add_results (sr_song sr2) (res_song res)\<rparr>)"

text \<open>
  \<^verbatim>\<open>do_search\<close>, the function that \<^verbatim>\<open>search\<close> submits. It reads the flag
  \<^verbatim>\<open>cancelled\<close> twice, each time after a sleep: \<open>cancelled1\<close> and \<open>cancelled2\<close> are
  the values it reads. \<open>remote\<close> is what the call of \<^verbatim>\<open>search3\<close> does: it raises or it
  answers. The value is the list of the calls of \<^verbatim>\<open>search_callback\<close>, in order, each
  with the search result as it is at the time of the call.
\<close>

definition do_search ::
  "cache \<Rightarrow> string \<Rightarrow> bool \<Rightarrow> bool \<Rightarrow> (error + search3_response) \<Rightarrow> search_event list" where
  "do_search c q cancelled1 cancelled2 remote =
     (if cancelled1 then []
      else
        (let search_result = local_results c q
         in (search_result, False) #
            (if cancelled2 then []
             else (case remote of
                     Inr server_result \<Rightarrow> [(merge_server_results search_result server_result, True)]
                   | Inl e \<Rightarrow> [(search_result, True)]))))"

text \<open>
  \<^verbatim>\<open>search\<close> itself: an empty query calls the callback at once and returns
  \<^verbatim>\<open>Result.from_data(None)\<close>; otherwise \<^verbatim>\<open>before_download\<close> runs (\<open>hook\<close> is
  \<open>Some e\<close> when it raises \<open>e\<close>) and \<^verbatim>\<open>do_search\<close> is submitted with the cancel hook.
\<close>

definition search ::
  "string \<Rightarrow> error option \<Rightarrow> 'fn \<Rightarrow> error + (search_event list \<times> (unit, 'fn) result)" where
  "search q hook cancel_fn =
     (if q = [] then Inr ([(SearchResult [], True)], from_data None)
      else (case hook of
              Some e \<Rightarrow> Inl e
            | None \<Rightarrow> Inr ([], from_server False (Some cancel_fn))))"

subsection \<open>The download registry\<close>

text \<open>
  \<^verbatim>\<open>return_cached_or_download\<close> and the functions it submits run in several threads
  over two shared objects, the set \<^verbatim>\<open>current_downloads\<close> and the file system. The model
  is an interleaving of atomic steps, one caller at a time; each step is a piece of the
  source that touches the shared objects at most once, or under the lock.

  \<^verbatim>\<open>calculate_abs_path\<close> and \<^verbatim>\<open>calculate_download_path\<close> join the relative path to
  directories taken from the configuration and the environment; the two functions are
  kept abstract. The file system maps a path to the file's contents.
\<close>

record locations =
  calculate_abs_path :: "string \<Rightarrow> string"
  calculate_download_path :: "string \<Rightarrow> string"

text \<open>
  The arguments of one call. A callable is given by what it does when it is called:
  \<open>download_fn\<close> raises or returns bytes, \<open>before_download\<close> raises or returns.
\<close>

record 'b request =
  relative_path :: string
  download_fn :: "error + 'b"
  before_download :: "error option"
  force :: bool
  allow_download :: bool

text \<open>
  Where a caller stands:
  \<^item> \<open>NotCalled\<close>: before the call;
  \<^item> \<open>Immediate p\<close>: the call returned \<^verbatim>\<open>Result.from_data(p)\<close>;
  \<^item> \<open>Submitted\<close>: the call returned \<^verbatim>\<open>Result.from_server(...)\<close>, the future has not started;
  \<^item> \<open>Started\<close>: \<^verbatim>\<open>before_download\<close> has run, \<^verbatim>\<open>do_download\<close> is about to take the lock;
  \<^item> \<open>Waiting\<close>: \<^verbatim>\<open>resource_downloading\<close> is true, the caller is in the busy loop;
  \<^item> \<open>Downloading\<close>: \<^verbatim>\<open>resource_downloading\<close> is false, \<^verbatim>\<open>download_fn()\<close> is in flight;
  \<^item> \<open>Moving\<close>: after the \<^verbatim>\<open>try\<close> statement, before the move into the cache;
  \<^item> \<open>Returned out\<close>: the submitted function has finished with \<open>out\<close>, the future's
    callbacks have not run;
  \<^item> \<open>Done out\<close>: the callbacks have run.
\<close>

datatype pc =
    NotCalled
  | Immediate string
  | Submitted
  | Started
  | Waiting
  | Downloading
  | Moving
  | Returned "error + string"
  | Done "error + string"

record 'b caller =
  req :: "'b request"
  pc :: pc

record 'b dl_state =
  current_downloads :: "string set"
  files :: "string \<rightharpoonup> 'b"
  callers :: "'b caller list"

definition abs_path_str :: "locations \<Rightarrow> 'b caller \<Rightarrow> string" where
  "abs_path_str loc c = calculate_abs_path loc (relative_path (req c))"

definition download_path :: "locations \<Rightarrow> 'b caller \<Rightarrow> string" where
  "download_path loc c = calculate_download_path loc (relative_path (req c))"

definition set_pc :: "nat \<Rightarrow> pc \<Rightarrow> 'b dl_state \<Rightarrow> 'b dl_state" where
  "set_pc i p s = s\<lparr>callers := (callers s)[i := (callers s ! i)\<lparr>pc := p\<rparr>]\<rparr>"

text \<open>
  The body of \<^verbatim>\<open>return_cached_or_download\<close> up to its return, in the calling thread.
\<close>

definition return_cached_or_download :: "locations \<Rightarrow> nat \<Rightarrow> 'b dl_state \<Rightarrow> 'b dl_state" where
  "return_cached_or_download loc i s =
     (let c = callers s ! i in
      if abs_path_str loc c \<in> dom (files s) \<and> \<not> force (req c)
      then set_pc i (Immediate (abs_path_str loc c)) s
      else if \<not> allow_download (req c) then set_pc i (Immediate []) s
      else set_pc i Submitted s)"

text \<open>\<^verbatim>\<open>future_fn\<close> of \<^verbatim>\<open>from_server\<close>: \<^verbatim>\<open>before_download()\<close>, then \<^verbatim>\<open>download_fn()\<close>.\<close>

definition future_fn_start :: "nat \<Rightarrow> 'b dl_state \<Rightarrow> 'b dl_state" where
  "future_fn_start i s =
     (case before_download (req (callers s ! i)) of
        Some e \<Rightarrow> set_pc i (Returned (Inl e)) s
      | None \<Rightarrow> set_pc i Started s)"

text \<open>
  \<^verbatim>\<open>do_download\<close>, the section under \<^verbatim>\<open>download_set_lock\<close>: the membership test, then
  the unconditional \<^verbatim>\<open>add\<close>.
\<close>

definition do_download_claim :: "locations \<Rightarrow> nat \<Rightarrow> 'b dl_state \<Rightarrow> 'b dl_state" where
  "do_download_claim loc i s =
     (let p = abs_path_str loc (callers s ! i);
          resource_downloading = (p \<in> current_downloads s);
          s' = s\<lparr>current_downloads := insert p (current_downloads s)\<rparr>
      in set_pc i (if resource_downloading then Waiting else Downloading) s')"

text \<open>One test of the busy loop: sleep again, or leave the loop and return the path.\<close>

definition do_download_poll :: "locations \<Rightarrow> nat \<Rightarrow> 'b dl_state \<Rightarrow> 'b dl_state" where
  "do_download_poll loc i s =
     (let p = abs_path_str loc (callers s ! i) in
      if p \<in> current_downloads s then s
      else set_pc i (Returned (Inr p)) s)"

text \<open>
  The \<^verbatim>\<open>try\<close> statement: \<^verbatim>\<open>save_file(download_path, download_fn())\<close>; a
  \<^verbatim>\<open>ConnectionError\<close> is caught and the key is discarded under the lock; any other
  exception leaves \<^verbatim>\<open>do_download\<close>.
\<close>

definition do_download_fetch :: "locations \<Rightarrow> nat \<Rightarrow> 'b dl_state \<Rightarrow> 'b dl_state" where
  "do_download_fetch loc i s =
     (let c = callers s ! i in
      case download_fn (req c) of
        Inr bytes \<Rightarrow> set_pc i Moving (s\<lparr>files := (files s)(download_path loc c \<mapsto> bytes)\<rparr>)
      | Inl ConnectionError \<Rightarrow>
          set_pc i Moving (s\<lparr>current_downloads := current_downloads s - {abs_path_str loc c}\<rparr>)
      | Inl e \<Rightarrow> set_pc i (Returned (Inl e)) s)"

text \<open>
  After the \<^verbatim>\<open>try\<close> statement: the move when the downloaded file exists, then
  \<^verbatim>\<open>return abs_path_str\<close>.
\<close>

definition do_download_move :: "locations \<Rightarrow> nat \<Rightarrow> 'b dl_state \<Rightarrow> 'b dl_state" where
  "do_download_move loc i s =
     (let c = callers s ! i;
          s' = (case files s (download_path loc c) of
                  Some bytes \<Rightarrow>
                    s\<lparr>files := ((files s)(download_path loc c := None))(abs_path_str loc c \<mapsto> bytes)\<rparr>
                | None \<Rightarrow> s)
      in set_pc i (Returned (Inr (abs_path_str loc c))) s')"

text \<open>
  The callback that \<^verbatim>\<open>from_server\<close> registers calls \<^verbatim>\<open>after_download(f.result())\<close>:
  when the future holds a path the path is discarded from the registry; when it holds
  an exception, \<^verbatim>\<open>f.result()\<close> raises inside the callback and nothing is discarded.
\<close>

definition after_download :: "nat \<Rightarrow> error + string \<Rightarrow> 'b dl_state \<Rightarrow> 'b dl_state" where
  "after_download i out s =
     (case out of
        Inr path \<Rightarrow> set_pc i (Done out) (s\<lparr>current_downloads := current_downloads s - {path}\<rparr>)
      | Inl e \<Rightarrow> set_pc i (Done out) s)"

definition step :: "locations \<Rightarrow> nat \<Rightarrow> 'b dl_state \<Rightarrow> 'b dl_state" where
  "step loc i s =
     (if i < length (callers s) then
        (case pc (callers s ! i) of
           NotCalled \<Rightarrow> return_cached_or_download loc i s
         | Immediate p \<Rightarrow> s
         | Submitted \<Rightarrow> future_fn_start i s
         | Started \<Rightarrow> do_download_claim loc i s
         | Waiting \<Rightarrow> do_download_poll loc i s
         | Downloading \<Rightarrow> do_download_fetch loc i s
         | Moving \<Rightarrow> do_download_move loc i s
         | Returned out \<Rightarrow> after_download i out s
         | Done out \<Rightarrow> s)
      else s)"

text \<open>A schedule names the caller that takes each step.\<close>

definition run :: "locations \<Rightarrow> nat list \<Rightarrow> 'b dl_state \<Rightarrow> 'b dl_state" where
  "run loc schedule s = fold (step loc) schedule s"

definition init :: "(string \<rightharpoonup> 'b) \<Rightarrow> 'b request list \<Rightarrow> 'b dl_state" where
  "init fs rs =
     \<lparr>current_downloads = {}, files = fs, callers = map (\<lambda>r. \<lparr>req = r, pc = NotCalled\<rparr>) rs\<rparr>"

text \<open>The callers whose \<^verbatim>\<open>download_fn()\<close> for the path \<open>p\<close> is in flight.\<close>

definition in_flight :: "locations \<Rightarrow> string \<Rightarrow> 'b dl_state \<Rightarrow> nat list" where
  "in_flight loc p s =
     filter (\<lambda>i. pc (callers s ! i) = Downloading \<and> abs_path_str loc (callers s ! i) = p)
       [0 ..< length (callers s)]"

text \<open>
  The Result that a caller holds, and what its \<^verbatim>\<open>result()\<close> gives: \<open>None\<close> before the
  call and while \<^verbatim>\<open>result()\<close> blocks.
\<close>

definition caller_result :: "'b caller \<Rightarrow> (string, 'fn) result option" where
  "caller_result c =
     (case pc c of
        NotCalled \<Rightarrow> None
      | Immediate p \<Rightarrow> Some (from_data (Some p))
      | Returned out \<Rightarrow> Some (fst (finish_result (from_server True None) (map_sum id Some out)))
      | Done out \<Rightarrow> Some (fst (finish_result (from_server True None) (map_sum id Some out)))
      | _ \<Rightarrow> Some (from_server True None))"

definition blocking_result :: "'b caller \<Rightarrow> (error + string option) option" where
  "blocking_result c =
     (case (caller_result c :: (string, unit) result option) of
        None \<Rightarrow> None
      | Some r \<Rightarrow> result_of r)"

subsection \<open>The album list\<close>

text \<open>
  \<^verbatim>\<open>server.get_album_list2(type_, size, offset)\<close> is the network: it raises, or it
  answers with an object whose \<^verbatim>\<open>album\<close> attribute is a list or \<^verbatim>\<open>None\<close>. The server
  may answer the same request differently each time, so the model's server also gets
  the number of requests made before this one.
\<close>

type_synonym 'a album_server = "nat \<Rightarrow> string \<Rightarrow> nat \<Rightarrow> nat \<Rightarrow> error + 'a list option"

text \<open>The requests made, in order, each with the page it got: a log beside the code.\<close>

record 'a page_fetch =
  pf_offset :: nat
  pf_size :: nat
  pf_albums :: "'a list"

text \<open>\<^verbatim>\<open>get_page(offset, page_size)\<close>: the \<^verbatim>\<open>album\<close> attribute \<^verbatim>\<open>or []\<close>.\<close>

definition get_page ::
  "'a album_server \<Rightarrow> string \<Rightarrow> nat \<Rightarrow> nat \<Rightarrow> nat \<Rightarrow> error + 'a list" where
  "get_page server list_type n offset page_size =
     (case server n list_type page_size offset of
        Inl e \<Rightarrow> Inl e
      | Inr None \<Rightarrow> Inr []
      | Inr (Some xs) \<Rightarrow> Inr xs)"

text \<open>
  The \<^verbatim>\<open>while\<close> loop of \<^verbatim>\<open>do_get_album_list\<close>. The loop may not end (a server can
  answer 500 albums for ever), so the function takes fuel, one unit for each test of the
  loop condition, and is \<open>None\<close> when the fuel is used up. In the body the page is
  requested at the current offset with the default size of 500, the page is appended, and
  only then the offset grows.
\<close>

fun album_loop ::
  "nat \<Rightarrow> 'a album_server \<Rightarrow> string \<Rightarrow> nat \<Rightarrow> 'a list \<Rightarrow> 'a list \<Rightarrow> 'a page_fetch list
     \<Rightarrow> (error + 'a list \<times> 'a page_fetch list) option" where
  "album_loop 0 server list_type offset next_page albums log = None"
| "album_loop (Suc fuel) server list_type offset next_page albums log =
     (if length next_page = 500 then
        (case get_page server list_type (length log) offset 500 of
           Inl e \<Rightarrow> Some (Inl e)
         | Inr next_page' \<Rightarrow>
             album_loop fuel server list_type (offset + 500) next_page' (albums @ next_page')
               (log @ [\<lparr>pf_offset = offset, pf_size = 500, pf_albums = next_page'\<rparr>]))
      else Some (Inr (albums, log)))"

definition do_get_album_list ::
  "nat \<Rightarrow> 'a album_server \<Rightarrow> string \<Rightarrow> (error + 'a list \<times> 'a page_fetch list) option" where
  "do_get_album_list fuel server list_type =
     (let page_size = (if list_type = ''random'' then 40 else 500);
          offset = 0
      in case get_page server list_type 0 offset page_size of
           Inl e \<Rightarrow> Some (Inl e)
         | Inr next_page \<Rightarrow>
             album_loop fuel server list_type offset next_page next_page
               [\<lparr>pf_offset = offset, pf_size = page_size, pf_albums = next_page\<rparr>])"

text \<open>
  A server that holds a fixed list of albums and answers every request with the slice
  asked for.
\<close>

definition static_server :: "'a list \<Rightarrow> 'a album_server" where
  "static_server xs n list_type page_size offset = Inr (Some (take page_size (drop offset xs)))"

text \<open>
  \<^verbatim>\<open>get_album_list\<close>: the cached list when it is not empty and \<^verbatim>\<open>force\<close> is false, else
  a Result from the server; the second component is the function submitted to the
  executor, if any. \<^verbatim>\<open>load_cache_info\<close> always stores a dictionary under
  \<^verbatim>\<open>"albums"\<close>, so only the lookup of the type can miss.
\<close>

datatype job = DoGetAlbumList string

definition get_album_list ::
  "cache \<Rightarrow> string \<Rightarrow> bool \<Rightarrow> (album_id3 list, 'fn) result \<times> job option" where
  "get_album_list c list_type force_flag =
     (let cached = (case map_of (cache_albums c) list_type of None \<Rightarrow> [] | Some xs \<Rightarrow> xs) in
      if length cached > 0 \<and> \<not> force_flag then (from_data (Some cached), None)
      else (from_server True None, Some (DoGetAlbumList list_type)))"

definition run_job ::
  "nat \<Rightarrow> album_id3 album_server \<Rightarrow> job
     \<Rightarrow> (error + album_id3 list \<times> album_id3 page_fetch list) option" where
  "run_job fuel server j = (case j of DoGetAlbumList list_type \<Rightarrow> do_get_album_list fuel server list_type)"

text \<open>\<^verbatim>\<open>after_download\<close> of \<^verbatim>\<open>get_album_list\<close> stores the albums under the type.\<close>

definition store_album_list :: "cache \<Rightarrow> string \<Rightarrow> album_id3 list \<Rightarrow> cache" where
  "store_album_list c list_type albums = c\<lparr>cache_albums := AList.update list_type albums (cache_albums c)\<rparr>"

subsection \<open>The migration of the cover art directory\<close>

text \<open>
  \<^verbatim>\<open>re.compile(r"(\d+)_(\d+)").match(name)\<close>: digits, an underscore, digits, at the
  start of the name; what follows the second run of digits is not looked at. Both groups
  are greedy, and a shorter first group cannot match since it would have to be followed
  by an underscore. The value is the pair of the two groups. The model reads the ten
  ASCII digits.
\<close>

definition is_digit :: "char \<Rightarrow> bool" where
  "is_digit ch = (ch \<in> set ''0123456789'')"

definition cover_art_re_match :: "string \<Rightarrow> (string \<times> string) option" where
  "cover_art_re_match name =
     (let g1 = takeWhile is_digit name in
      if g1 = [] then None
      else (case dropWhile is_digit name of
              [] \<Rightarrow> None
            | ch # rest \<Rightarrow>
                (let g2 = takeWhile is_digit rest in
                 if ch = CHR ''_'' \<and> g2 \<noteq> [] then Some (g1, g2) else None)))"

text \<open>\<^verbatim>\<open>int\<close> on a string of decimal digits.\<close>

definition digit_value :: "char \<Rightarrow> nat" where
  "digit_value ch = of_char ch - of_char (CHR ''0'')"

definition py_int :: "string \<Rightarrow> nat" where
  "py_int ds = foldl (\<lambda>n ch. 10 * n + digit_value ch) 0 ds"

text \<open>
  The directory maps a file name to the file's contents. \<^verbatim>\<open>shutil.move\<close> to a name of
  the same directory renames the file, replacing a file of that name; moving or
  unlinking a file that is not there raises.
\<close>

definition shutil_move :: "string \<Rightarrow> string \<Rightarrow> (string \<rightharpoonup> 'b) \<Rightarrow> error + (string \<rightharpoonup> 'b)" where
  "shutil_move src dst dir =
     (case dir src of
        None \<Rightarrow> Inl FileNotFoundError
      | Some bytes \<Rightarrow> Inr ((dir(src := None))(dst \<mapsto> bytes)))"

definition unlink :: "string \<Rightarrow> (string \<rightharpoonup> 'b) \<Rightarrow> error + (string \<rightharpoonup> 'b)" where
  "unlink name dir =
     (case dir name of
        None \<Rightarrow> Inl FileNotFoundError
      | Some bytes \<Rightarrow> Inr (dir(name := None)))"

text \<open>
  The body of the loop over \<^verbatim>\<open>abs_path.iterdir()\<close>. The target of the move is
  \<^verbatim>\<open>cover_art_file.parent.joinpath("{art_id}")\<close>: the string has no \<^verbatim>\<open>f\<close> prefix, so the
  name is the eight characters between the quotes.
\<close>

definition no_dimens :: string where
  "no_dimens = ''{art_id}''"

definition migrate_file :: "string \<Rightarrow> (string \<rightharpoonup> 'b) \<Rightarrow> error + (string \<rightharpoonup> 'b)" where
  "migrate_file name dir =
     (case cover_art_re_match name of
        None \<Rightarrow> Inr dir
      | Some (art_id, dimensions) \<Rightarrow>
          (if py_int dimensions = 1000 then shutil_move name no_dimens dir
           else unlink name dir))"

fun migrate_files :: "string list \<Rightarrow> (string \<rightharpoonup> 'b) \<Rightarrow> error + (string \<rightharpoonup> 'b)" where
  "migrate_files [] dir = Inr dir"
| "migrate_files (name # names) dir =
     (case migrate_file name dir of
        Inl e \<Rightarrow> Inl e
      | Inr dir' \<Rightarrow> migrate_files names dir')"

text \<open>
  The part of \<^verbatim>\<open>load_cache_info\<close> that deals with the version: the stored version is
  \<^verbatim>\<open>meta_json.get("version", 0)\<close>; below 1 the migration runs over the names that
  \<^verbatim>\<open>iterdir\<close> lists; the version of the cache becomes 1.
\<close>

definition load_cache_info ::
  "int option \<Rightarrow> string list \<Rightarrow> (string \<rightharpoonup> 'b) \<Rightarrow> error + ((string \<rightharpoonup> 'b) \<times> int)" where
  "load_cache_info stored_version listing dir =
     (let cache_version = (case stored_version of None \<Rightarrow> 0 | Some v \<Rightarrow> v) in
      if cache_version < 1 then
        (case migrate_files listing dir of
           Inl e \<Rightarrow> Inl e
         | Inr dir' \<Rightarrow> Inr (dir', 1))
      else Inr (dir, 1))"

subsection \<open>The facade\<close>

text \<open>
  \<^verbatim>\<open>CacheManager\<close> is a class that is never instantiated; its metaclass
  \<^verbatim>\<open>Singleton\<close> answers every attribute that the class does not define itself. Of the
  internal instance the model keeps the names of its attributes and of its server's.
\<close>

record internal =
  inst_attrs :: "string set"
  server_attrs :: "string set"

record facade =
  cm_instance :: "internal option"
  should_exit :: bool
  executor_shutdown :: bool

datatype attr = PyNone | InstanceAttr string | ServerAttr string

text \<open>\<^verbatim>\<open>Singleton.__getattr__\<close>.\<close>

definition singleton_getattr :: "facade \<Rightarrow> string \<Rightarrow> error + attr" where
  "singleton_getattr cm name =
     (case cm_instance cm of
        None \<Rightarrow> Inr PyNone
      | Some inst \<Rightarrow>
          (if name \<in> inst_attrs inst then Inr (InstanceAttr name)
           else if name \<in> server_attrs inst then Inr (ServerAttr name)
           else Inl AttributeError))"

text \<open>
  The operations of the facade: the static methods that \<^verbatim>\<open>CacheManager\<close> defines
  itself, and \<open>Forwarded name\<close> for a call \<^verbatim>\<open>CacheManager.name(...)\<close> of a name that the
  class does not define, which Python resolves through \<^verbatim>\<open>Singleton.__getattr__\<close>.
  \<open>Reset\<close> carries what the constructor of the internal instance does.
\<close>

datatype operation = Ready | Shutdown | Reset "error + internal" | Forwarded string

text \<open>
  What a call gives: \<^verbatim>\<open>None\<close>, a truth value, or \<open>Called a\<close> when the call went to the
  attribute \<open>a\<close> of the instance or of the server. Calling \<^verbatim>\<open>None\<close> is a
  \<^verbatim>\<open>TypeError\<close>.
\<close>

datatype outcome = ReturnedNone | ReturnedBool bool | Called attr

definition invoke :: "facade \<Rightarrow> operation \<Rightarrow> (error + outcome) \<times> facade" where
  "invoke cm op =
     (case op of
        Ready \<Rightarrow> (Inr (ReturnedBool (cm_instance cm \<noteq> None)), cm)
      | Shutdown \<Rightarrow>
          (let cm' = cm\<lparr>should_exit := True, executor_shutdown := True\<rparr> in
           case cm_instance cm of
             None \<Rightarrow> (Inl AttributeError, cm')
           | Some inst \<Rightarrow> (Inr ReturnedNone, cm'))
      | Reset made \<Rightarrow>
          (case made of
             Inl e \<Rightarrow> (Inl e, cm)
           | Inr inst \<Rightarrow> (Inr ReturnedNone, cm\<lparr>cm_instance := Some inst\<rparr>))
      | Forwarded name \<Rightarrow>
          (case singleton_getattr cm name of
             Inl e \<Rightarrow> (Inl e, cm)
           | Inr PyNone \<Rightarrow> (Inl TypeError, cm)
           | Inr a \<Rightarrow> (Inr (Called a), cm)))"

definition not_reset :: facade where
  "not_reset = \<lparr>cm_instance = None, should_exit = False, executor_shutdown = False\<rparr>"

subsection \<open>Concrete inputs\<close>

text \<open>The inputs at which the statements below are evaluated.\<close>

definition exact_match_fuzz :: fuzz where
  "exact_match_fuzz = \<lparr>partial_ratio = (\<lambda>a b. if a = b then 100 else 0), lower = (\<lambda>s. s)\<rparr>"

definition beatles_cache :: cache where
  "beatles_cache =
     \<lparr>cache_albums = [(''newest'', [\<lparr>al_id = ''7'', al_name = ''Abbey Road'', al_artist = ''The Beatles''\<rparr>])],
      cache_artists = [\<lparr>ar_id = ''1'', ar_name = ''The Beatles''\<rparr>],
      cache_song_details = [],
      cache_playlists = []\<rparr>"

definition example_locations :: locations where
  "example_locations =
     \<lparr>calculate_abs_path = (\<lambda>p. ''/cache/'' @ p),
      calculate_download_path = (\<lambda>p. ''/tmp/'' @ p)\<rparr>"

definition cover_art_request :: "nat request" where
  "cover_art_request =
     \<lparr>relative_path = ''cover_art/1'', download_fn = Inr 7, before_download = None,
      force = False, allow_download = True\<rparr>"

definition unreachable_request :: "nat request" where
  "unreachable_request = cover_art_request\<lparr>download_fn := Inl ConnectionError\<rparr>"

definition two_cover_art_files :: "string \<rightharpoonup> nat" where
  "two_cover_art_files = [''123_1000'' \<mapsto> 1, ''123_300'' \<mapsto> 2]"

definition empty_newest_cache :: cache where
  "empty_newest_cache = beatles_cache\<lparr>cache_albums := [(''newest'', [])]\<rparr>"

section \<open>Properties\<close>

subsection \<open>The Result wrapper\<close>

text \<open>
  C9. An immediate Result built by \<^verbatim>\<open>from_data(v)\<close> returns \<open>v\<close> from \<^verbatim>\<open>result()\<close>
  when \<open>v\<close> is not \<^verbatim>\<open>None\<close>. When \<open>v\<close> is \<^verbatim>\<open>None\<close>, \<^verbatim>\<open>result()\<close> raises, although a
  value was supplied: the Result has neither data other than \<^verbatim>\<open>None\<close> nor a future. The
  Result that \<^verbatim>\<open>search\<close> returns for the empty query is such a Result.
\<close>

theorem C9_result_of_from_data:
  "result_of (from_data (Some v) :: ('a, 'fn) result) = Some (Inr (Some v))
   \<and> result_of (from_data None :: ('a, 'fn) result) = Some (Inl no_data_or_future)
   \<and> search [] hook (cancel_fn :: 'fn) = Inr ([(SearchResult [], True)], from_data None)"
  by (simp add: result_of_def from_data_def search_def)

subsection \<open>Ranked views\<close>

lemma take_takeWhile_prefix:
  "take n (takeWhile P rs) = take (length (take n (takeWhile P rs))) rs"
proof -
  have "take n (takeWhile P rs) = take n (take (length (takeWhile P rs)) rs)"
    by (metis takeWhile_eq_take)
  also have "\<dots> = take (min n (length (takeWhile P rs))) rs"
    by (simp only: take_take)
  also have "min n (length (takeWhile P rs)) = length (take n (takeWhile P rs))"
    by (simp add: min.commute)
  finally show ?thesis .
qed

lemma to_result_loop_takeWhile:
  "length result \<le> 20 \<Longrightarrow>
   to_result_loop rs result =
     result @ map snd (take (20 - length result) (takeWhile (\<lambda>rx. 60 < fst rx) rs))"
proof (induction rs result rule: to_result_loop.induct)
  case (1 result)
  then show ?case by simp
next
  case (2 ratio x rest result)
  show ?case
  proof (cases "ratio > 60 \<and> length result < 20")
    case True
    then have "20 - length result = Suc (20 - length (result @ [x]))" by simp arith
    with 2 True show ?thesis by simp
  next
    case False
    with 2 show ?thesis by auto
  qed
qed

lemma to_result_takeWhile:
  "to_result fz q it tr =
     map snd (take 20 (takeWhile (\<lambda>rx. 60 < fst rx) (all_results fz q it tr)))"
  using to_result_loop_takeWhile[of "[]" "all_results fz q it tr"] by (simp add: to_result_def)

lemma to_result_prefix:
  "to_result fz q it tr =
     map snd (take (length (to_result fz q it tr)) (all_results fz q it tr))"
proof -
  define front where "front = take 20 (takeWhile (\<lambda>rx. 60 < fst rx) (all_results fz q it tr))"
  have a: "to_result fz q it tr = map snd front"
    unfolding front_def by (rule to_result_takeWhile)
  have b: "front = take (length front) (all_results fz q it tr)"
    unfolding front_def by (rule take_takeWhile_prefix)
  have c: "length (to_result fz q it tr) = length front"
    unfolding a by (rule length_map)
  from b have "map snd front = map snd (take (length front) (all_results fz q it tr))"
    by (rule arg_cong)
  then show ?thesis unfolding a length_map .
qed

lemma sorted_all_results:
  "sorted_wrt (\<lambda>a b. a \<ge> b) (map fst (all_results fz q it tr))"
proof -
  have "sorted (map (\<lambda>rx. - fst rx) (all_results fz q it tr))"
    unfolding all_results_def by (rule sorted_sort_key)
  then show ?thesis
    by (simp add: sorted_wrt_map sorted_map)
qed

lemma mset_all_results:
  "mset (all_results fz q it tr) = mset (map (\<lambda>x. (similarity_ratio fz q (tr x), x)) it)"
  by (simp add: all_results_def)

lemma fst_all_results:
  "rx \<in> set (all_results fz q it tr) \<Longrightarrow> fst rx = similarity_ratio fz q (tr (snd rx))"
  by (auto simp: all_results_def)

lemma to_result_length: "length (to_result fz q it tr) \<le> 20"
  by (simp add: to_result_takeWhile)

lemma to_result_above:
  assumes "x \<in> set (to_result fz q it tr)"
  shows "60 < similarity_ratio fz q (tr x)"
proof -
  let ?rs = "all_results fz q it tr"
  let ?front = "take 20 (takeWhile (\<lambda>rx. 60 < fst rx) ?rs)"
  from assms obtain rx where rx: "rx \<in> set ?front" "x = snd rx"
    by (auto simp: to_result_takeWhile)
  from rx(1) have tw: "rx \<in> set (takeWhile (\<lambda>rx. 60 < fst rx) ?rs)"
    by (rule in_set_takeD)
  then have "60 < fst rx" by (rule set_takeWhileD[THEN conjunct2])
  moreover from tw have "rx \<in> set ?rs" by (rule set_takeWhileD[THEN conjunct1])
  then have "fst rx = similarity_ratio fz q (tr x)"
    using rx(2) fst_all_results by blast
  ultimately show ?thesis by simp
qed

text \<open>
  C5. For every query, every collection of candidates and every string taken from a
  candidate, the ranked list has at most 20 items, every item scores above 60 against
  the query, and the list is a front part of the candidates sorted by descending score:
  the first 20 of the leading candidates that score above 60. The sorted list holds
  exactly the candidates, each with its score. Each of the four views \<open>artist\<close>,
  \<open>album\<close>, \<open>song\<close> and \<open>playlist_view\<close> is such a ranked list, so it has at most 20
  items and each of them scores above 60.
\<close>

theorem C5_ranked_view:
  "length (to_result fz q it tr) \<le> 20
   \<and> (\<forall>x \<in> set (to_result fz q it tr). 60 < similarity_ratio fz q (tr x))
   \<and> to_result fz q it tr
       = map snd (take (length (to_result fz q it tr)) (all_results fz q it tr))
   \<and> to_result fz q it tr
       = map snd (take 20 (takeWhile (\<lambda>rx. 60 < fst rx) (all_results fz q it tr)))
   \<and> sorted_wrt (\<lambda>a b. a \<ge> b) (map fst (all_results fz q it tr))
   \<and> mset (all_results fz q it tr) = mset (map (\<lambda>x. (similarity_ratio fz q (tr x), x)) it)
   \<and> (\<forall>r \<in> set_option (artist fz sr).
         length r \<le> 20 \<and> (\<forall>x \<in> set r. 60 < similarity_ratio fz (query sr) (ar_name x)))
   \<and> (\<forall>r \<in> set_option (album fz sr).
         length r \<le> 20
         \<and> (\<forall>x \<in> set r. 60 < similarity_ratio fz (query sr) (al_name x @ '' - '' @ al_artist x)))
   \<and> (\<forall>r \<in> set_option (song fz sr).
         length r \<le> 20
         \<and> (\<forall>x \<in> set r. 60 < similarity_ratio fz (query sr) (ch_title x @ '' - '' @ ch_artist x)))
   \<and> (\<forall>r \<in> set_option (playlist_view fz sr).
         length r \<le> 20 \<and> (\<forall>x \<in> set r. 60 < similarity_ratio fz (query sr) (pl_name x)))"
proof -
  have generic: "length (to_result fz q it tr) \<le> 20
     \<and> (\<forall>x \<in> set (to_result fz q it tr). 60 < similarity_ratio fz q (tr x))
     \<and> to_result fz q it tr
         = map snd (take (length (to_result fz q it tr)) (all_results fz q it tr))
     \<and> to_result fz q it tr
         = map snd (take 20 (takeWhile (\<lambda>rx. 60 < fst rx) (all_results fz q it tr)))
     \<and> sorted_wrt (\<lambda>a b. a \<ge> b) (map fst (all_results fz q it tr))
     \<and> mset (all_results fz q it tr) = mset (map (\<lambda>x. (similarity_ratio fz q (tr x), x)) it)"
    by (intro conjI ballI)
      (rule to_result_length, erule to_result_above, rule to_result_prefix,
        rule to_result_takeWhile, rule sorted_all_results, rule mset_all_results)
  have v1: "\<forall>r \<in> set_option (artist fz sr).
      length r \<le> 20 \<and> (\<forall>x \<in> set r. 60 < similarity_ratio fz (query sr) (ar_name x))"
    by (auto simp: artist_def to_result_length dest: to_result_above)
  have v2: "\<forall>r \<in> set_option (album fz sr).
      length r \<le> 20
      \<and> (\<forall>x \<in> set r. 60 < similarity_ratio fz (query sr) (al_name x @ '' - '' @ al_artist x))"
    by (auto simp: album_def to_result_length dest: to_result_above)
  have v3: "\<forall>r \<in> set_option (song fz sr).
      length r \<le> 20
      \<and> (\<forall>x \<in> set r. 60 < similarity_ratio fz (query sr) (ch_title x @ '' - '' @ ch_artist x))"
    by (auto simp: song_def to_result_length dest: to_result_above)
  have v4: "\<forall>r \<in> set_option (playlist_view fz sr).
      length r \<le> 20 \<and> (\<forall>x \<in> set r. 60 < similarity_ratio fz (query sr) (pl_name x))"
    by (auto simp: playlist_view_def to_result_length dest: to_result_above)
  from generic v1 v2 v3 v4 show ?thesis by (intro conjI) blast+
qed

theorem C5_ranked_view_witness:
  "to_result exact_match_fuzz ''a'' [''b'', ''a''] (\<lambda>s. s) = [''a'']
   \<and> length (to_result exact_match_fuzz ''a'' [''b'', ''a''] (\<lambda>s. s)) \<le> 20
   \<and> 60 < similarity_ratio exact_match_fuzz ''a'' ''a''
   \<and> artist exact_match_fuzz (local_results beatles_cache ''The Beatles'')
       = Some [\<lparr>ar_id = ''1'', ar_name = ''The Beatles''\<rparr>]
   \<and> 60 < similarity_ratio exact_match_fuzz ''The Beatles'' ''The Beatles''
   \<and> album exact_match_fuzz (local_results beatles_cache ''The Beatles'') = Some []
   \<and> song exact_match_fuzz (local_results beatles_cache ''The Beatles'') = Some []
   \<and> playlist_view exact_match_fuzz (local_results beatles_cache ''The Beatles'') = Some []"
  using C5_ranked_view[where fz = exact_match_fuzz and q = "''a''" and it = "[''b'', ''a'']"
      and tr = "\<lambda>s. s" and sr = "local_results beatles_cache ''The Beatles''"]
  by (simp add: to_result_def all_results_def similarity_ratio_def exact_match_fuzz_def
      artist_def album_def song_def playlist_view_def local_results_def SearchResult_def
      add_results_def set_union_def beatles_cache_def Let_def)

subsection \<open>The two-phase search\<close>

text \<open>
  C6. For a non-empty query \<^verbatim>\<open>search\<close> itself calls no callback and submits
  \<^verbatim>\<open>do_search\<close>. When the flag is set at the first check, no callback fires; when it is
  set at the second check only, the local callback has fired and the final one never
  does. When the flag is never set, the callback is called with \<^verbatim>\<open>final=True\<close> exactly
  once, after the local call, also when the remote search raises: then the final call
  carries the local results.
\<close>

theorem C6_search_callbacks:
  "q \<noteq> [] \<Longrightarrow>
     search q None cancel_fn = Inr ([], from_server False (Some cancel_fn))
   \<and> do_search c q True cancelled2 remote = []
   \<and> do_search c q False True remote = [(local_results c q, False)]
   \<and> length (filter snd (do_search c q False False remote)) = 1
   \<and> do_search c q False False (Inl e) = [(local_results c q, False), (local_results c q, True)]
   \<and> do_search c q False False (Inr res) =
       [(local_results c q, False), (merge_server_results (local_results c q) res, True)]"
  by (simp add: search_def do_search_def Let_def split: sum.split)

theorem C6_search_callbacks_witness:
  "''bea'' \<noteq> []
   \<and> do_search beatles_cache ''bea'' True False (Inl ConnectionError) = []
   \<and> length (filter snd (do_search beatles_cache ''bea'' False False (Inl ConnectionError))) = 1"
  using C6_search_callbacks[of "''bea''" "()" beatles_cache False "Inl ConnectionError"
      ConnectionError]
  by simp

subsection \<open>Completion callbacks\<close>

text \<open>
  C7, as the code has it. On a Result without a future, \<^verbatim>\<open>add_done_callback\<close> calls
  \<open>fn\<close> on the spot, exactly once, and the first argument of the call is the Result
  itself, not the value it resolves to. On a Result whose future is running, nothing is
  called at registration; when the future finishes, \<open>fn\<close> is called exactly once, with
  the finished future. On a Result whose future has finished, \<open>fn\<close> is called on the
  spot with the future.
\<close>

theorem C7_callback_receives_result:
  "(future r = None \<longrightarrow>
      add_done_callback r fn args = Inr (r, [(UserCallback fn, ResultObj r # args)]))
   \<and> (future r = Some f \<and> fut_outcome f = None \<and> UserCallback fn \<notin> set (fut_callbacks f) \<longrightarrow>
        (let f1 = f\<lparr>fut_callbacks := fut_callbacks f @ [UserCallback fn]\<rparr>;
             r1 = r\<lparr>future := Some f1\<rparr>;
             f2 = f1\<lparr>fut_outcome := Some out\<rparr>
         in add_done_callback r fn [] = Inr (r1, [])
            \<and> fst (finish_result r1 out) = r1\<lparr>future := Some f2\<rparr>
            \<and> filter (\<lambda>c. fst c = UserCallback fn) (snd (finish_result r1 out))
                = [(UserCallback fn, [FutureObj f2])]))
   \<and> (future r = Some f \<and> fut_outcome f = Some out \<longrightarrow>
        add_done_callback r fn [] = Inr (r, [(UserCallback fn, [FutureObj f])]))"
proof (intro conjI impI)
  assume "future r = None"
  then show "add_done_callback r fn args = Inr (r, [(UserCallback fn, ResultObj r # args)])"
    by (simp add: add_done_callback_def)
next
  assume h: "future r = Some f \<and> fut_outcome f = None \<and> UserCallback fn \<notin> set (fut_callbacks f)"
  then have "filter (\<lambda>c. c = UserCallback fn) (fut_callbacks f) = []"
    by (auto simp add: filter_empty_conv)
  then have "filter ((\<lambda>c. fst c = UserCallback fn) \<circ> (\<lambda>cb. (cb, [FutureObj g]))) (fut_callbacks f) = []"
    for g :: "('a, 'b) future"
    by (simp add: comp_def)
  with h show "let f1 = f\<lparr>fut_callbacks := fut_callbacks f @ [UserCallback fn]\<rparr>;
             r1 = r\<lparr>future := Some f1\<rparr>;
             f2 = f1\<lparr>fut_outcome := Some out\<rparr>
         in add_done_callback r fn [] = Inr (r1, [])
            \<and> fst (finish_result r1 out) = r1\<lparr>future := Some f2\<rparr>
            \<and> filter (\<lambda>c. fst c = UserCallback fn) (snd (finish_result r1 out))
                = [(UserCallback fn, [FutureObj f2])]"
    by (simp add: add_done_callback_def future_add_done_callback_def finish_result_def
        future_finish_def Let_def filter_map)
next
  assume "future r = Some f \<and> fut_outcome f = Some out"
  then show "add_done_callback r fn [] = Inr (r, [(UserCallback fn, [FutureObj f])])"
    by (auto simp add: add_done_callback_def future_add_done_callback_def)
qed

theorem C7_callback_receives_result_witness:
  "add_done_callback (from_data (Some (5::nat))) ''fn'' []
      = Inr (from_data (Some 5), [(UserCallback ''fn'', [ResultObj (from_data (Some 5))])])
   \<and> add_done_callback (from_server False None :: (nat, string) result) ''fn'' []
      = Inr (from_server False None
               \<lparr>future := Some \<lparr>fut_outcome = None, fut_callbacks = [UserCallback ''fn'']\<rparr>\<rparr>, [])
   \<and> add_done_callback
        (fst (finish_result (from_server False None :: (nat, string) result) (Inr (Some 5))))
        ''fn'' []
      = Inr (fst (finish_result (from_server False None) (Inr (Some 5))),
             [(UserCallback ''fn'',
               [FutureObj \<lparr>fut_outcome = Some (Inr (Some 5)), fut_callbacks = []\<rparr>])])"
  using
    C7_callback_receives_result[of "from_data (Some (5::nat))" "''fn''" "[]"
      "\<lparr>fut_outcome = None, fut_callbacks = []\<rparr>" "Inr (Some 5)"]
    C7_callback_receives_result[of "from_server False None :: (nat, string) result" "''fn''" "[]"
      "\<lparr>fut_outcome = None, fut_callbacks = []\<rparr>" "Inr (Some 5)"]
    C7_callback_receives_result[of
      "fst (finish_result (from_server False None :: (nat, string) result) (Inr (Some 5)))"
      "''fn''" "[]" "\<lparr>fut_outcome = Some (Inr (Some 5)), fut_callbacks = []\<rparr>" "Inr (Some 5)"]
  by (simp add: from_data_def from_server_def finish_result_def future_finish_def Let_def)

text \<open>
  C7 as stated fails: the callback registered on \<^verbatim>\<open>from_data(5)\<close> is called with the
  Result, which is not the value 5.
\<close>

theorem C7_argument_is_not_the_value:
  "add_done_callback (from_data (Some (5::nat))) ''fn'' []
     = Inr (from_data (Some 5), [(UserCallback ''fn'', [ResultObj (from_data (Some 5))])])
   \<and> (ResultObj (from_data (Some 5)) :: (nat, string) pyobj) \<noteq> PlainValue (Some 5)"
  by (simp add: add_done_callback_def from_data_def)

subsection \<open>The facade before reset\<close>

text \<open>
  C8, as the code has it. While no internal instance exists, the attribute fallback
  answers \<^verbatim>\<open>None\<close> without failing; the call of an operation resolved through the
  fallback then fails with a \<^verbatim>\<open>TypeError\<close> and leaves the facade as it was;
  \<^verbatim>\<open>shutdown()\<close> fails with an \<^verbatim>\<open>AttributeError\<close> after it has set
  \<^verbatim>\<open>should_exit\<close> and shut the executor down; \<^verbatim>\<open>ready()\<close> does not fail and returns
  \<^verbatim>\<open>False\<close>; \<^verbatim>\<open>reset\<close> installs the instance.
\<close>

theorem C8_before_reset:
  "cm_instance cm = None \<Longrightarrow>
     singleton_getattr cm name = Inr PyNone
   \<and> invoke cm (Forwarded name) = (Inl TypeError, cm)
   \<and> invoke cm Shutdown = (Inl AttributeError, cm\<lparr>should_exit := True, executor_shutdown := True\<rparr>)
   \<and> invoke cm Ready = (Inr (ReturnedBool False), cm)
   \<and> invoke cm (Reset (Inr inst)) = (Inr ReturnedNone, cm\<lparr>cm_instance := Some inst\<rparr>)"
  by (simp add: singleton_getattr_def invoke_def)

theorem C8_before_reset_witness:
  "cm_instance not_reset = None
   \<and> invoke not_reset (Forwarded ''get_artists'') = (Inl TypeError, not_reset)"
  using C8_before_reset[of not_reset "''get_artists''"]
  by (simp add: not_reset_def)

text \<open>C8 as stated fails: \<^verbatim>\<open>ready()\<close> before \<^verbatim>\<open>reset\<close> returns \<^verbatim>\<open>False\<close>.\<close>

theorem C8_ready_before_reset:
  "invoke not_reset Ready = (Inr (ReturnedBool False), not_reset)"
  by (simp add: invoke_def not_reset_def)

subsection \<open>The album list\<close>

text \<open>
  C10. \<^verbatim>\<open>get_album_list\<close> returns an immediate Result exactly when the cache holds a
  non-empty list for the type and \<^verbatim>\<open>force\<close> is false; then the Result holds that list.
  An empty cached list, like a missing one, gives a Result from the server and submits
  the fetch, also without \<^verbatim>\<open>force\<close>.
\<close>

theorem C10_empty_cached_list_is_miss:
  "(\<not> is_future (fst (get_album_list c ty f :: (album_id3 list, 'fn) result \<times> job option))
      \<longleftrightarrow> (\<exists>xs. map_of (cache_albums c) ty = Some xs \<and> xs \<noteq> [] \<and> \<not> f))
   \<and> (map_of (cache_albums c) ty = Some xs \<and> xs \<noteq> [] \<longrightarrow>
        (get_album_list c ty False :: (album_id3 list, 'fn) result \<times> job option)
           = (from_data (Some xs), None))
   \<and> (map_of (cache_albums c) ty = Some [] \<or> map_of (cache_albums c) ty = None \<or> f \<longrightarrow>
        (get_album_list c ty f :: (album_id3 list, 'fn) result \<times> job option)
           = (from_server True None, Some (DoGetAlbumList ty)))
   \<and> run_job fuel server (DoGetAlbumList ty) = do_get_album_list fuel server ty"
  by (auto simp add: get_album_list_def is_future_def from_data_def from_server_def run_job_def
      Let_def split: option.splits)

theorem C10_empty_cached_list_is_miss_witness:
  "map_of (cache_albums empty_newest_cache) ''newest'' = Some []
   \<and> (get_album_list empty_newest_cache ''newest'' False
        :: (album_id3 list, unit) result \<times> job option)
       = (from_server True None, Some (DoGetAlbumList ''newest''))
   \<and> (get_album_list beatles_cache ''newest'' False
        :: (album_id3 list, unit) result \<times> job option)
       = (from_data
            (Some [\<lparr>al_id = ''7'', al_name = ''Abbey Road'', al_artist = ''The Beatles''\<rparr>]),
          None)"
  using
    C10_empty_cached_list_is_miss[of empty_newest_cache "''newest''" False "[]",
      where 'fn = unit]
    C10_empty_cached_list_is_miss[of beatles_cache "''newest''" False
      "[\<lparr>al_id = ''7'', al_name = ''Abbey Road'', al_artist = ''The Beatles''\<rparr>]",
      where 'fn = unit]
  by (simp add: empty_newest_cache_def beatles_cache_def)

lemma album_loop_log:
  "album_loop fuel server ty offset next_page albums log = Some (Inr (albums', log')) \<Longrightarrow>
   \<exists>more. log' = log @ more
     \<and> albums' = albums @ concat (map pf_albums more)
     \<and> (\<forall>f \<in> set more. pf_size f = 500)
     \<and> (\<forall>f \<in> set (butlast (\<lparr>pf_offset = o0, pf_size = s0, pf_albums = next_page\<rparr> # more)).
           length (pf_albums f) = 500)
     \<and> length (pf_albums (last (\<lparr>pf_offset = o0, pf_size = s0, pf_albums = next_page\<rparr> # more)))
           \<noteq> 500"
proof (induction fuel arbitrary: offset next_page albums log o0 s0)
  case 0
  then show ?case by simp
next
  case (Suc fuel)
  show ?case
  proof (cases "length next_page = 500")
    case False
    with Suc.prems have "albums' = albums" "log' = log" by auto
    with False show ?thesis by (intro exI[of _ "[]"]) simp
  next
    case True
    with Suc.prems obtain np where np: "get_page server ty (length log) offset 500 = Inr np"
      and rec: "album_loop fuel server ty (offset + 500) np (albums @ np)
                  (log @ [\<lparr>pf_offset = offset, pf_size = 500, pf_albums = np\<rparr>])
                = Some (Inr (albums', log'))"
      by (auto split: sum.splits)
    from Suc.IH[OF rec, of offset 500] obtain more where more:
      "log' = (log @ [\<lparr>pf_offset = offset, pf_size = 500, pf_albums = np\<rparr>]) @ more"
      "albums' = (albums @ np) @ concat (map pf_albums more)"
      "\<forall>f \<in> set more. pf_size f = 500"
      "\<forall>f \<in> set (butlast (\<lparr>pf_offset = offset, pf_size = 500, pf_albums = np\<rparr> # more)).
          length (pf_albums f) = 500"
      "length (pf_albums (last (\<lparr>pf_offset = offset, pf_size = 500, pf_albums = np\<rparr> # more)))
          \<noteq> 500"
      by blast
    let ?m = "\<lparr>pf_offset = offset, pf_size = 500, pf_albums = np\<rparr> # more"
    show ?thesis
      by (rule exI[of _ ?m]) (use more True in auto)
  qed
qed

lemma do_get_album_list_log:
  assumes "do_get_album_list fuel server ty = Some (Inr (albums, log))"
  shows "log \<noteq> []
     \<and> pf_offset (hd log) = 0
     \<and> pf_size (hd log) = (if ty = ''random'' then 40 else 500)
     \<and> (\<forall>f \<in> set (tl log). pf_size f = 500)
     \<and> (\<forall>f \<in> set (butlast log). length (pf_albums f) = 500)
     \<and> length (pf_albums (last log)) \<noteq> 500
     \<and> albums = concat (map pf_albums log)
     \<and> length albums = sum_list (map (\<lambda>f. length (pf_albums f)) log)"
proof -
  let ?ps = "if ty = ''random'' then 40 else (500::nat)"
  from assms obtain np where np: "get_page server ty 0 0 ?ps = Inr np"
    and loop: "album_loop fuel server ty 0 np np [\<lparr>pf_offset = 0, pf_size = ?ps, pf_albums = np\<rparr>]
                 = Some (Inr (albums, log))"
    by (auto simp: do_get_album_list_def Let_def split: sum.splits)
  from album_loop_log[OF loop, of 0 ?ps] obtain more where more:
    "log = [\<lparr>pf_offset = 0, pf_size = ?ps, pf_albums = np\<rparr>] @ more"
    "albums = np @ concat (map pf_albums more)"
    "\<forall>f \<in> set more. pf_size f = 500"
    "\<forall>f \<in> set (butlast (\<lparr>pf_offset = 0, pf_size = ?ps, pf_albums = np\<rparr> # more)).
        length (pf_albums f) = 500"
    "length (pf_albums (last (\<lparr>pf_offset = 0, pf_size = ?ps, pf_albums = np\<rparr> # more))) \<noteq> 500"
    by blast
  have cat: "albums = concat (map pf_albums log)" using more by simp
  have "length (concat (map pf_albums log)) = sum_list (map (\<lambda>f. length (pf_albums f)) log)"
    by (simp add: length_concat comp_def)
  with cat more show ?thesis by simp
qed

lemma album_loop_static_terminates:
  "(length xs - offset) div 500 + 2 \<le> fuel \<Longrightarrow>
   \<exists>r. album_loop fuel (static_server xs) ty offset next_page albums log = Some (Inr r)"
proof (induction fuel arbitrary: offset next_page albums log)
  case 0
  then show ?case by simp
next
  case (Suc fuel)
  show ?case
  proof (cases "length next_page = 500")
    case False
    then show ?thesis by simp
  next
    case True
    define np where "np = take 500 (drop offset xs)"
    have gp: "get_page (static_server xs) ty (length log) offset 500 = Inr np"
      by (simp add: get_page_def static_server_def np_def)
    have unfold: "album_loop (Suc fuel) (static_server xs) ty offset next_page albums log
        = album_loop fuel (static_server xs) ty (offset + 500) np (albums @ np)
            (log @ [\<lparr>pf_offset = offset, pf_size = 500, pf_albums = np\<rparr>])"
      using True gp by simp
    show ?thesis
    proof (cases "length np = 500")
      case full: True
      then have "500 \<le> length xs - offset" by (simp add: np_def)
      then have "(length xs - offset) div 500 = Suc ((length xs - offset - 500) div 500)"
        by (simp add: le_div_geq)
      then have "(length xs - (offset + 500)) div 500 + 2 \<le> fuel"
        using Suc.prems by simp
      from Suc.IH[OF this] show ?thesis unfolding unfold by blast
    next
      case short: False
      from Suc.prems obtain k where k: "fuel = Suc k" by (cases fuel) auto
      have "album_loop fuel (static_server xs) ty (offset + 500) np (albums @ np)
            (log @ [\<lparr>pf_offset = offset, pf_size = 500, pf_albums = np\<rparr>])
          = Some (Inr (albums @ np, log @ [\<lparr>pf_offset = offset, pf_size = 500, pf_albums = np\<rparr>]))"
        using short by (simp add: k)
      then show ?thesis unfolding unfold by blast
    qed
  qed
qed

lemma do_get_album_list_static_terminates:
  "length xs div 500 + 2 \<le> fuel \<Longrightarrow>
   \<exists>r. do_get_album_list fuel (static_server xs) ty = Some (Inr r)"
  using album_loop_static_terminates[of xs 0 fuel]
  by (simp add: do_get_album_list_def get_page_def static_server_def Let_def)

text \<open>
  With 600 albums on the server and a type other than \<^verbatim>\<open>"random"\<close>, the loop asks for
  offset 0 a second time before it moves on: the result has 1100 albums, the first 500
  of them twice.
\<close>

lemma album_list_first_page_twice:
  "do_get_album_list 3 (static_server [0 ..< 600]) ''newest''
     = Some (Inr ([0 ..< 500] @ [0 ..< 500] @ [500 ..< 600],
          [\<lparr>pf_offset = 0, pf_size = 500, pf_albums = [0 ..< 500]\<rparr>,
           \<lparr>pf_offset = 0, pf_size = 500, pf_albums = [0 ..< 500]\<rparr>,
           \<lparr>pf_offset = 500, pf_size = 500, pf_albums = [500 ..< 600]\<rparr>]))"
  by (simp add: do_get_album_list_def get_page_def static_server_def Let_def numeral_3_eq_3)

text \<open>
  C3, as the code has it by design. When \<^verbatim>\<open>do_get_album_list\<close> returns, it has made at
  least one request; the first one asks for offset 0 and for 500 albums, or 40 when the
  type is \<^verbatim>\<open>"random"\<close>; for any other type every request asks for 500 albums. A further
  page is requested exactly while the last page holds exactly 500 albums: every page
  but the last holds 500, the last one does not. The result is the concatenation of the
  pages, so its length is the sum of their lengths. Against a server that holds a finite
  list and answers with the slice asked for, the function returns.
\<close>

theorem C3_album_list_pages:
  "(do_get_album_list fuel server ty = Some (Inr (albums, log)) \<longrightarrow>
      log \<noteq> []
      \<and> pf_offset (hd log) = 0
      \<and> pf_size (hd log) = (if ty = ''random'' then 40 else 500)
      \<and> (ty \<noteq> ''random'' \<longrightarrow> (\<forall>f \<in> set log. pf_size f = 500))
      \<and> (\<forall>f \<in> set (butlast log). length (pf_albums f) = 500)
      \<and> length (pf_albums (last log)) \<noteq> 500
      \<and> albums = concat (map pf_albums log)
      \<and> length albums = sum_list (map (\<lambda>f. length (pf_albums f)) log))
   \<and> (length xs div 500 + 2 \<le> fuel \<longrightarrow>
        (\<exists>albums log. do_get_album_list fuel (static_server xs) ty = Some (Inr (albums, log))))"
proof (intro conjI impI)
  assume r: "do_get_album_list fuel server ty = Some (Inr (albums, log))"
  note facts = do_get_album_list_log[OF r]
  from facts show "log \<noteq> []" by blast
  from facts show "pf_offset (hd log) = 0" by blast
  from facts show "pf_size (hd log) = (if ty = ''random'' then 40 else 500)" by blast
  from facts show "\<forall>f \<in> set (butlast log). length (pf_albums f) = 500" by blast
  from facts show "length (pf_albums (last log)) \<noteq> 500" by blast
  from facts show "albums = concat (map pf_albums log)" by blast
  from facts show "length albums = sum_list (map (\<lambda>f. length (pf_albums f)) log)" by blast
  {
    assume "ty \<noteq> ''random''"
    with facts have hd: "pf_size (hd log) = 500" and tl: "\<forall>f \<in> set (tl log). pf_size f = 500"
      and ne: "log \<noteq> []" by auto
    show "\<forall>f \<in> set log. pf_size f = 500"
    proof
      fix f assume "f \<in> set log"
      with ne have "f = hd log \<or> f \<in> set (tl log)" by (cases log) auto
      with hd tl show "pf_size f = 500" by auto
    qed
  }
next
  assume "length xs div 500 + 2 \<le> fuel"
  from do_get_album_list_static_terminates[OF this]
  show "\<exists>albums log. do_get_album_list fuel (static_server xs) ty = Some (Inr (albums, log))"
    by auto
qed

theorem C3_album_list_pages_witness:
  "do_get_album_list 3 (static_server [0 ..< 600]) ''newest''
     = Some (Inr ([0 ..< 500] @ [0 ..< 500] @ [500 ..< 600],
          [\<lparr>pf_offset = 0, pf_size = 500, pf_albums = [0 ..< 500]\<rparr>,
           \<lparr>pf_offset = 0, pf_size = 500, pf_albums = [0 ..< 500]\<rparr>,
           \<lparr>pf_offset = 500, pf_size = 500, pf_albums = [500 ..< 600]\<rparr>]))
   \<and> length ([0 ..< 500] @ [0 ..< 500] @ [500 ..< 600]) = 500 + 500 + 100
   \<and> length [0 ..< 600] div 500 + 2 \<le> 3
   \<and> (\<exists>albums log. do_get_album_list 3 (static_server [0 ..< 600]) ''newest''
          = Some (Inr (albums, log)))"
  using
    C3_album_list_pages[of 3 "static_server [0 ..< 600]" "''newest''"
      "[0 ..< 500] @ [0 ..< 500] @ [500 ..< 600]"
      "[\<lparr>pf_offset = 0, pf_size = 500, pf_albums = [0 ..< 500]\<rparr>,
        \<lparr>pf_offset = 0, pf_size = 500, pf_albums = [0 ..< 500]\<rparr>,
        \<lparr>pf_offset = 500, pf_size = 500, pf_albums = [500 ..< 600]\<rparr>]" "[0 ..< 600]"]
    album_list_first_page_twice
  by simp

text \<open>
  C3 as stated fails: for the type \<^verbatim>\<open>"random"\<close> against a server with 100 albums, the
  only page holds 40 albums, as many as were asked for, and the fetch stops.
\<close>

theorem C3_random_stops_after_full_page:
  "do_get_album_list 2 (static_server [0 ..< 100]) ''random''
     = Some (Inr ([0 ..< 40], [\<lparr>pf_offset = 0, pf_size = 40, pf_albums = [0 ..< 40]\<rparr>]))
   \<and> \<not> length [0 ..< 40] < (40::nat)"
  by (simp add: do_get_album_list_def get_page_def static_server_def Let_def numeral_2_eq_2)

subsection \<open>The migration\<close>

text \<open>
  What holds of the migration: a name that the pattern matches is gone afterwards, a
  second run over the migrated directory changes nothing, and the run over the names of
  the directory does not fail.
\<close>

lemma no_dimens_unmatched: "cover_art_re_match no_dimens = None"
  by (simp add: cover_art_re_match_def no_dimens_def is_digit_def)

lemma migrate_file_dom:
  assumes "migrate_file name dir = Inr dir'"
  shows "dom dir' \<subseteq> (dom dir - (if cover_art_re_match name = None then {} else {name})) \<union> {no_dimens}"
  using assms
  by (auto simp: migrate_file_def shutil_move_def unlink_def no_dimens_unmatched
      split: option.splits if_splits prod.splits)

lemma migrate_files_unmatched:
  "\<forall>n \<in> set names. cover_art_re_match n = None \<Longrightarrow> migrate_files names dir = Inr dir"
  by (induction names) (auto simp: migrate_file_def)

lemma migrate_files_dom:
  "migrate_files names dir = Inr dir' \<Longrightarrow>
   dom dir' \<subseteq> (dom dir - {n \<in> set names. cover_art_re_match n \<noteq> None}) \<union> {no_dimens}"
proof (induction names arbitrary: dir)
  case Nil
  then show ?case by auto
next
  case (Cons name names)
  from Cons.prems obtain d1 where d1: "migrate_file name dir = Inr d1"
    and rest: "migrate_files names d1 = Inr dir'"
    by (auto split: sum.splits)
  have a: "dom d1 \<subseteq> (dom dir - (if cover_art_re_match name = None then {} else {name})) \<union> {no_dimens}"
    by (rule migrate_file_dom[OF d1])
  have b: "dom dir' \<subseteq> (dom d1 - {n \<in> set names. cover_art_re_match n \<noteq> None}) \<union> {no_dimens}"
    by (rule Cons.IH[OF rest])
  have c: "{n \<in> set (name # names). cover_art_re_match n \<noteq> None}
      = (if cover_art_re_match name = None then {} else {name})
        \<union> {n \<in> set names. cover_art_re_match n \<noteq> None}"
    by auto
  show ?case unfolding c using a b by blast
qed

lemma migration_idempotent:
  assumes "migrate_files listing dir = Inr dir'" "dom dir \<subseteq> set listing"
    "set listing' \<subseteq> dom dir'"
  shows "migrate_files listing' dir' = Inr dir'"
proof (rule migrate_files_unmatched, rule ballI)
  fix n assume n: "n \<in> set listing'"
  have d: "dom dir' \<subseteq> (dom dir - {n \<in> set listing. cover_art_re_match n \<noteq> None}) \<union> {no_dimens}"
    by (rule migrate_files_dom[OF assms(1)])
  from n assms(3) have "n \<in> dom dir'" by blast
  with d have "n = no_dimens \<or> (n \<in> dom dir \<and> n \<notin> {n \<in> set listing. cover_art_re_match n \<noteq> None})"
    by blast
  then show "cover_art_re_match n = None"
  proof
    assume "n = no_dimens"
    then show ?thesis by (simp add: no_dimens_unmatched)
  next
    assume h: "n \<in> dom dir \<and> n \<notin> {n \<in> set listing. cover_art_re_match n \<noteq> None}"
    with assms(2) have "n \<in> set listing" by blast
    with h show ?thesis by blast
  qed
qed

lemma migration_deletes_other_sizes:
  assumes "migrate_files listing dir = Inr dir'" "name \<in> set listing"
    "cover_art_re_match name = Some (art_id, dimensions)"
  shows "dir' name = None"
proof -
  have d: "dom dir' \<subseteq> (dom dir - {n \<in> set listing. cover_art_re_match n \<noteq> None}) \<union> {no_dimens}"
    by (rule migrate_files_dom[OF assms(1)])
  from assms(3) no_dimens_unmatched have ne: "name \<noteq> no_dimens" by auto
  from assms(2,3) have "name \<in> {n \<in> set listing. cover_art_re_match n \<noteq> None}" by simp
  with d ne have "name \<notin> dom dir'" by blast
  then show ?thesis by blast
qed

lemma migrate_file_succeeds:
  assumes "name \<in> dom dir"
  shows "\<exists>dir'. migrate_file name dir = Inr dir' \<and> dom dir - {name} \<subseteq> dom dir'"
  using assms
  by (auto simp: migrate_file_def shutil_move_def unlink_def split: option.splits prod.splits)

lemma migrate_files_succeeds:
  "distinct listing \<Longrightarrow> set listing \<subseteq> dom dir \<Longrightarrow> \<exists>dir'. migrate_files listing dir = Inr dir'"
proof (induction listing arbitrary: dir)
  case Nil
  then show ?case by simp
next
  case (Cons name names)
  then have "name \<in> dom dir" by simp
  from migrate_file_succeeds[OF this] obtain d1 where d1: "migrate_file name dir = Inr d1"
    and keep: "dom dir - {name} \<subseteq> dom d1" by blast
  from Cons.prems have "distinct names" "set names \<subseteq> dom dir - {name}" by auto
  with keep have "set names \<subseteq> dom d1" by blast
  from Cons.IH[OF \<open>distinct names\<close> this] obtain dir' where "migrate_files names d1 = Inr dir'"
    by blast
  with d1 show ?case by simp
qed

text \<open>
  C4, at the directory of the specification's scenario: a version-0 cache whose cover
  art directory holds \<^verbatim>\<open>123_1000\<close> and \<^verbatim>\<open>123_300\<close>. After \<^verbatim>\<open>load_cache_info\<close> the
  version is 1, \<^verbatim>\<open>123_300\<close> is gone, and the contents of \<^verbatim>\<open>123_1000\<close> are in a file
  named \<^verbatim>\<open>{art_id}\<close>, braces included; there is no file named \<^verbatim>\<open>123\<close>.
\<close>

theorem C4_migration_renames_to_literal:
  "load_cache_info None [''123_1000'', ''123_300''] two_cover_art_files
     = Inr ([''{art_id}'' \<mapsto> 1], 1)
   \<and> [''{art_id}'' \<mapsto> (1::nat)] ''123'' = None"
  by (simp add: load_cache_info_def migrate_file_def cover_art_re_match_def is_digit_def
      py_int_def digit_value_def shutil_move_def unlink_def no_dimens_def
      two_cover_art_files_def Let_def fun_eq_iff)

subsection \<open>The download registry\<close>

lemmas download_defs = run_def init_def step_def return_cached_or_download_def
  future_fn_start_def do_download_claim_def do_download_poll_def do_download_fetch_def
  do_download_move_def after_download_def set_pc_def abs_path_str_def download_path_def

lemmas result_defs = blocking_result_def caller_result_def finish_result_def from_server_def
  future_finish_def result_of_def future_result_def from_data_def

lemma blocking_result_Returned:
  "pc c = Returned (Inr p) \<Longrightarrow> blocking_result c = Some (Inr (Some p))"
  by (simp add: result_defs Let_def)

lemma step_fetch_connection_error:
  assumes "i < length (callers s)" "pc (callers s ! i) = Downloading"
    "download_fn (req (callers s ! i)) = Inl ConnectionError"
  shows "step loc i s =
    set_pc i Moving
      (s\<lparr>current_downloads := current_downloads s - {abs_path_str loc (callers s ! i)}\<rparr>)"
  using assms by (simp add: step_def do_download_fetch_def Let_def)

lemma step_move:
  assumes "i < length (callers s)" "pc (callers s ! i) = Moving"
  shows "pc (callers (step loc i s) ! i) = Returned (Inr (abs_path_str loc (callers s ! i)))
    \<and> current_downloads (step loc i s) = current_downloads s"
  using assms
  by (simp add: step_def do_download_move_def set_pc_def Let_def split: option.split)

lemma step_poll_free:
  assumes "i < length (callers s)" "pc (callers s ! i) = Waiting"
    "abs_path_str loc (callers s ! i) \<notin> current_downloads s"
  shows "step loc i s = set_pc i (Returned (Inr (abs_path_str loc (callers s ! i)))) s"
  using assms by (simp add: step_def do_download_poll_def Let_def)

text \<open>
  An exception of \<^verbatim>\<open>download_fn\<close> other than a \<^verbatim>\<open>ConnectionError\<close> leaves
  \<^verbatim>\<open>do_download\<close>: the future holds the exception and the key stays in the registry.
\<close>

lemma step_fetch_other_error:
  assumes "i < length (callers s)" "pc (callers s ! i) = Downloading"
    "download_fn (req (callers s ! i)) = Inl e" "e \<noteq> ConnectionError"
  shows "step loc i s = set_pc i (Returned (Inl e)) s"
  using assms by (cases e) (simp_all add: step_def do_download_fetch_def Let_def)

lemma set_pc_sel:
  "i < length (callers s) \<Longrightarrow> pc (callers (set_pc i p s) ! i) = p"
  "i < length (callers s) \<Longrightarrow> req (callers (set_pc i p s) ! i) = req (callers s ! i)"
  "current_downloads (set_pc i p s) = current_downloads s"
  "files (set_pc i p s) = files s"
  "length (callers (set_pc i p s)) = length (callers s)"
  by (simp_all add: set_pc_def)

text \<open>
  C1, at four callers of the same path \<^verbatim>\<open>cover_art/1\<close>, none cached, all four called
  before any download ends. Caller 0 claims the key and caller 1 joins it. Caller 0
  downloads, moves the file and its callback discards the key. Caller 1 leaves the busy
  loop. Caller 2 claims the key and starts its download. The callback of caller 1 discards
  the key that caller 2 holds, so caller 3 claims it too: the downloads of callers 2 and
  3 are in flight together, for a file that caller 0 has already stored.
\<close>

theorem C1_two_downloads_in_flight:
  "in_flight example_locations ''/cache/cover_art/1''
     (run example_locations [0, 1, 2, 3, 0, 1, 2, 3, 0, 1, 0, 0, 0, 1, 2, 1, 3]
        (init Map.empty
           [cover_art_request, cover_art_request, cover_art_request, cover_art_request]))
     = [2, 3]
   \<and> files
       (run example_locations [0, 1, 2, 3, 0, 1, 2, 3, 0, 1, 0, 0, 0, 1, 2, 1, 3]
          (init Map.empty
             [cover_art_request, cover_art_request, cover_art_request, cover_art_request]))
       ''/cache/cover_art/1'' = Some 7"
  by (simp add: download_defs in_flight_def example_locations_def cover_art_request_def Let_def
      upt_rec)

text \<open>
  C2, as the code has it. When \<^verbatim>\<open>download_fn\<close> raises a \<^verbatim>\<open>ConnectionError\<close> in the
  caller that holds the key, the key leaves the registry, no file is written, and the
  failure goes no further: after the caller's next step \<^verbatim>\<open>do_download\<close> has returned
  the absolute path and \<^verbatim>\<open>result()\<close> of the caller's Result gives that path. A waiter
  that finds the key gone returns the same path, whether the file exists or not.
\<close>

theorem C2_connection_error_returns_path:
  "i < length (callers s) \<Longrightarrow> c = callers s ! i \<Longrightarrow> p = abs_path_str loc c \<Longrightarrow>
     (pc c = Downloading \<and> download_fn (req c) = Inl ConnectionError \<longrightarrow>
        p \<notin> current_downloads (step loc i s)
        \<and> files (step loc i s) = files s
        \<and> p \<notin> current_downloads (step loc i (step loc i s))
        \<and> blocking_result (callers (step loc i (step loc i s)) ! i) = Some (Inr (Some p)))
   \<and> (pc c = Waiting \<and> p \<notin> current_downloads s \<longrightarrow>
        files (step loc i s) = files s
        \<and> blocking_result (callers (step loc i s) ! i) = Some (Inr (Some p)))"
proof (intro conjI impI)
  assume i: "i < length (callers s)" and c: "c = callers s ! i" and p: "p = abs_path_str loc c"
  {
    assume h: "pc c = Downloading \<and> download_fn (req c) = Inl ConnectionError"
    let ?s1 = "step loc i s"
    have s1: "?s1 = set_pc i Moving (s\<lparr>current_downloads := current_downloads s - {p}\<rparr>)"
      using step_fetch_connection_error[of i s loc] i c p h by simp
    show "p \<notin> current_downloads ?s1" by (simp add: s1 set_pc_sel)
    show "files ?s1 = files s" by (simp add: s1 set_pc_sel)
    have i1: "i < length (callers ?s1)" using i by (simp add: s1 set_pc_sel)
    have pc1: "pc (callers ?s1 ! i) = Moving" using i by (simp add: s1 set_pc_sel)
    have p1: "abs_path_str loc (callers ?s1 ! i) = p"
      using i c p by (simp add: s1 abs_path_str_def set_pc_def)
    from step_move[OF i1 pc1, of loc] p1
    have m: "pc (callers (step loc i ?s1) ! i) = Returned (Inr p)"
      "current_downloads (step loc i ?s1) = current_downloads ?s1" by simp_all
    show "p \<notin> current_downloads (step loc i ?s1)" using m by (simp add: s1 set_pc_sel)
    show "blocking_result (callers (step loc i ?s1) ! i) = Some (Inr (Some p))"
      using m(1) by (rule blocking_result_Returned)
  }
  {
    assume h: "pc c = Waiting \<and> p \<notin> current_downloads s"
    have s1: "step loc i s = set_pc i (Returned (Inr p)) s"
      using step_poll_free[of i s loc] i c p h by simp
    show "files (step loc i s) = files s" by (simp add: s1 set_pc_sel)
    have "pc (callers (step loc i s) ! i) = Returned (Inr p)"
      using i by (simp add: s1 set_pc_sel)
    then show "blocking_result (callers (step loc i s) ! i) = Some (Inr (Some p))"
      by (rule blocking_result_Returned)
  }
qed

text \<open>
  The state after both callers have been called and started, caller 0 has claimed the
  key and caller 1 has joined; and the state after the download of caller 0 has failed.
\<close>

lemma joined_state:
  "run example_locations [0, 1, 0, 1, 0, 1] (init Map.empty [unreachable_request, cover_art_request])
     = \<lparr>current_downloads = {''/cache/cover_art/1''}, files = Map.empty,
        callers = [\<lparr>req = unreachable_request, pc = Downloading\<rparr>,
                   \<lparr>req = cover_art_request, pc = Waiting\<rparr>]\<rparr>"
  by (simp add: download_defs example_locations_def cover_art_request_def
      unreachable_request_def Let_def)

lemma failed_state:
  "run example_locations [0, 1, 0, 1, 0, 1, 0, 0]
       (init Map.empty [unreachable_request, cover_art_request])
     = \<lparr>current_downloads = {}, files = Map.empty,
        callers = [\<lparr>req = unreachable_request, pc = Returned (Inr ''/cache/cover_art/1'')\<rparr>,
                   \<lparr>req = cover_art_request, pc = Waiting\<rparr>]\<rparr>"
  by (simp add: download_defs example_locations_def cover_art_request_def
      unreachable_request_def Let_def)

theorem C2_connection_error_returns_path_witness:
  "pc (callers (run example_locations [0, 1, 0, 1, 0, 1]
          (init Map.empty [unreachable_request, cover_art_request])) ! 0) = Downloading
   \<and> download_fn unreachable_request = Inl ConnectionError
   \<and> blocking_result
        (callers (step example_locations 0 (step example_locations 0
           (run example_locations [0, 1, 0, 1, 0, 1]
              (init Map.empty [unreachable_request, cover_art_request])))) ! 0)
       = Some (Inr (Some ''/cache/cover_art/1''))
   \<and> pc (callers (run example_locations [0, 1, 0, 1, 0, 1, 0, 0]
          (init Map.empty [unreachable_request, cover_art_request])) ! 1) = Waiting
   \<and> ''/cache/cover_art/1'' \<notin> current_downloads (run example_locations [0, 1, 0, 1, 0, 1, 0, 0]
          (init Map.empty [unreachable_request, cover_art_request]))
   \<and> blocking_result
        (callers (step example_locations 1
           (run example_locations [0, 1, 0, 1, 0, 1, 0, 0]
              (init Map.empty [unreachable_request, cover_art_request]))) ! 1)
       = Some (Inr (Some ''/cache/cover_art/1''))"
  using
    C2_connection_error_returns_path[where i = 0 and loc = example_locations
      and s = "run example_locations [0, 1, 0, 1, 0, 1]
                 (init Map.empty [unreachable_request, cover_art_request])", OF _ refl refl]
    C2_connection_error_returns_path[where i = 1 and loc = example_locations
      and s = "run example_locations [0, 1, 0, 1, 0, 1, 0, 0]
                 (init Map.empty [unreachable_request, cover_art_request])", OF _ refl refl]
  unfolding joined_state failed_state
  by (simp add: abs_path_str_def example_locations_def unreachable_request_def
      cover_art_request_def)

text \<open>
  C2 as stated fails. Caller 0 holds the key and its download raises a
  \<^verbatim>\<open>ConnectionError\<close>; caller 1 waits for the same path. At the end \<^verbatim>\<open>result()\<close> of
  either caller returns the path, no failure, and no file exists at the path.
\<close>

theorem C2_failure_does_not_propagate:
  "download_fn unreachable_request = Inl ConnectionError
   \<and> blocking_result (callers (run example_locations [0, 1, 0, 1, 0, 1, 0, 0, 1]
        (init Map.empty [unreachable_request, cover_art_request])) ! 0)
      = Some (Inr (Some ''/cache/cover_art/1''))
   \<and> blocking_result (callers (run example_locations [0, 1, 0, 1, 0, 1, 0, 0, 1]
        (init Map.empty [unreachable_request, cover_art_request])) ! 1)
      = Some (Inr (Some ''/cache/cover_art/1''))
   \<and> files (run example_locations [0, 1, 0, 1, 0, 1, 0, 0, 1]
        (init Map.empty [unreachable_request, cover_art_request])) ''/cache/cover_art/1'' = None"
  by (simp add: download_defs result_defs example_locations_def cover_art_request_def
      unreachable_request_def Let_def)

end
